theory Spec2Isabelle
  imports Main "HOL-Library.Word"
begin

unbundle bit_operations_syntax

section \<open>Values\<close>

text \<open>
  Python \<open>bytes\<close> are lists of 8-bit words; Python \<open>str\<close> is \<open>string\<close>, a list of
  characters with code points below 256. An exception is a value of \<open>py_error\<close>, and a
  call that may raise returns \<open>py_error + 'a\<close> with \<open>Inl\<close> for the exception.
\<close>

type_synonym byte = "8 word"
type_synonym bytes = "byte list"

datatype py_error =
    IndexError
  | ResourceNotFoundError
  | ResourceExistsError
  | HttpResponseError string

section \<open>The backend container\<close>

text \<open>
  Modelled from the spec: the container client of the object-storage SDK
  (\<open>azure.storage.blob.ContainerClient\<close> and its blob clients), which \<open>storage.py\<close>
  imports and which is not among the sources. The spec describes it as zero or more blobs
  under one container, addressed by key, each an opaque byte sequence, where a write
  overwrites, a read or a deletion of an absent key fails with not-found, and any call may
  fail with a backend error (network, permission).

  The remote state is the map \<open>blobs\<close>. The environment's failures are the schedule
  \<open>faults\<close>: each backend request takes the head of the schedule, and fails with that
  error, leaving the blobs as they were, when the head is \<open>Some e\<close>. An empty schedule
  is an environment that never fails.
\<close>

record container_state =
  blobs :: "string \<rightharpoonup> bytes"
  faults :: "py_error option list"

definition next_fault :: "container_state \<Rightarrow> py_error option \<times> container_state" where
  "next_fault cs =
     (case faults cs of
        [] \<Rightarrow> (None, cs)
      | f # fs \<Rightarrow> (f, cs\<lparr>faults := fs\<rparr>))"

text \<open>Modelled from the spec: \<open>BlobClient.upload_blob(data, overwrite=...)\<close>.\<close>

definition upload_blob ::
  "string \<Rightarrow> bytes \<Rightarrow> bool \<Rightarrow> container_state \<Rightarrow> (py_error + unit) \<times> container_state" where
  "upload_blob name data overwrite cs =
     (case next_fault cs of
        (Some e, cs') \<Rightarrow> (Inl e, cs')
      | (None, cs') \<Rightarrow>
          if \<not> overwrite \<and> blobs cs' name \<noteq> None then (Inl ResourceExistsError, cs')
          else (Inr (), cs'\<lparr>blobs := (blobs cs')(name \<mapsto> data)\<rparr>))"

text \<open>Modelled from the spec: \<open>BlobClient.delete_blob()\<close>.\<close>

definition delete_blob ::
  "string \<Rightarrow> container_state \<Rightarrow> (py_error + unit) \<times> container_state" where
  "delete_blob name cs =
     (case next_fault cs of
        (Some e, cs') \<Rightarrow> (Inl e, cs')
      | (None, cs') \<Rightarrow>
          if blobs cs' name = None then (Inl ResourceNotFoundError, cs')
          else (Inr (), cs'\<lparr>blobs := (blobs cs')(name := None)\<rparr>))"

text \<open>Modelled from the spec: \<open>BlobClient.exists()\<close>.\<close>

definition blob_exists ::
  "string \<Rightarrow> container_state \<Rightarrow> (py_error + bool) \<times> container_state" where
  "blob_exists name cs =
     (case next_fault cs of
        (Some e, cs') \<Rightarrow> (Inl e, cs')
      | (None, cs') \<Rightarrow> (Inr (blobs cs' name \<noteq> None), cs'))"

text \<open>Modelled from the spec: \<open>BlobClient.download_blob().readall()\<close>.\<close>

definition download_blob_readall ::
  "string \<Rightarrow> container_state \<Rightarrow> (py_error + bytes) \<times> container_state" where
  "download_blob_readall name cs =
     (case next_fault cs of
        (Some e, cs') \<Rightarrow> (Inl e, cs')
      | (None, cs') \<Rightarrow>
          (case blobs cs' name of
             None \<Rightarrow> (Inl ResourceNotFoundError, cs')
           | Some data \<Rightarrow> (Inr data, cs')))"

section \<open>The storage adapter (\<open>storage.py\<close>, class \<open>AzureBlobStorage\<close>)\<close>

text \<open>
  The handle \<open>container_client\<close> is built once from the SAS URL; it names the remote
  container, whose state is passed to every operation that reaches the backend and
  returned by it.
\<close>

datatype ContainerClient = from_container_url string

record AzureBlobStorage =
  sas_url :: string
  sas_token :: string
  container_name :: string
  container_client :: ContainerClient

definition init :: "string \<Rightarrow> string \<Rightarrow> string \<Rightarrow> AzureBlobStorage" where
  "init sas_url' sas_token' container_name' =
     \<lparr>sas_url = sas_url', sas_token = sas_token', container_name = container_name',
      container_client = from_container_url sas_url'\<rparr>"

definition upload ::
  "AzureBlobStorage \<Rightarrow> string \<Rightarrow> bytes \<Rightarrow> container_state \<Rightarrow> (py_error + string) \<times> container_state" where
  "upload self file_path data cs =
     (case upload_blob file_path data True cs of
        (Inl e, cs') \<Rightarrow> (Inl e, cs')
      | (Inr _, cs') \<Rightarrow> (Inr file_path, cs'))"

text \<open>
  \<open>str.split(sep)\<close> for a one-character separator: the pieces between the occurrences of
  \<open>sep\<close>, never an empty list.
\<close>

fun split :: "char \<Rightarrow> string \<Rightarrow> string list" where
  "split sep [] = [[]]"
| "split sep (c # cs) =
     (if c = sep then [] # split sep cs
      else (case split sep cs of
              [] \<Rightarrow> [[c]]
            | p # ps \<Rightarrow> (c # p) # ps))"

text \<open>\<open>xs[0]\<close> raises \<open>IndexError\<close> on an empty list.\<close>

definition index0 :: "'a list \<Rightarrow> py_error + 'a" where
  "index0 xs = (case xs of [] \<Rightarrow> Inl IndexError | x # _ \<Rightarrow> Inr x)"

definition get_url :: "AzureBlobStorage \<Rightarrow> string \<Rightarrow> int \<Rightarrow> py_error + string" where
  "get_url self file_path expiry_hours =
     (case index0 (split CHR ''?'' (sas_url self)) of
        Inl e \<Rightarrow> Inl e
      | Inr base_url \<Rightarrow> Inr (base_url @ ''/'' @ file_path @ ''?'' @ sas_token self))"

text \<open>The default of the parameter \<open>expiry_hours\<close>.\<close>

definition get_url_default :: "AzureBlobStorage \<Rightarrow> string \<Rightarrow> py_error + string" where
  "get_url_default self file_path = get_url self file_path 24"

text \<open>\<open>try: ... return True / except Exception: return False\<close>.\<close>

definition delete ::
  "AzureBlobStorage \<Rightarrow> string \<Rightarrow> container_state \<Rightarrow> (py_error + bool) \<times> container_state" where
  "delete self file_path cs =
     (case delete_blob file_path cs of
        (Inl e, cs') \<Rightarrow> (Inr False, cs')
      | (Inr _, cs') \<Rightarrow> (Inr True, cs'))"

definition exists ::
  "AzureBlobStorage \<Rightarrow> string \<Rightarrow> container_state \<Rightarrow> (py_error + bool) \<times> container_state" where
  "exists self file_path cs = blob_exists file_path cs"

definition download ::
  "AzureBlobStorage \<Rightarrow> string \<Rightarrow> container_state \<Rightarrow> (py_error + bytes) \<times> container_state" where
  "download self file_path cs = download_blob_readall file_path cs"

text \<open>
  The spec's words for the base of a URL: the SAS URL with everything from the first
  \<open>?\<close> onward stripped.
\<close>

definition base_without_query :: "string \<Rightarrow> string" where
  "base_without_query url = takeWhile (\<lambda>c. c \<noteq> CHR ''?'') url"

section \<open>Properties of the adapter\<close>

lemma split_first: "\<exists>ps. split CHR ''?'' s = takeWhile (\<lambda>c. c \<noteq> CHR ''?'') s # ps"
  by (induction s) auto

lemma index0_split: "index0 (split CHR ''?'' s) = Inr (base_without_query s)"
proof -
  obtain ps where "split CHR ''?'' s = takeWhile (\<lambda>c. c \<noteq> CHR ''?'') s # ps"
    using split_first by blast
  then show ?thesis
    by (simp add: index0_def base_without_query_def)
qed

lemma next_fault_no_faults: "faults cs = [] \<Longrightarrow> next_fault cs = (None, cs)"
  by (simp add: next_fault_def)


subsection \<open>Concrete adapters and container states\<close>

definition example_storage :: AzureBlobStorage where
  "example_storage =
     init ''https://acct.blob.core.windows.net/images?sv=2022&sig=abc'' ''sv=2022&sig=abc''
       ''images''"

definition empty_container :: container_state where
  "empty_container = \<lparr>blobs = Map.empty, faults = []\<rparr>"

definition hello_container :: container_state where
  "hello_container = \<lparr>blobs = [''t/hello.txt'' \<mapsto> [72, 105]], faults = []\<rparr>"

definition failing_container :: container_state where
  "failing_container =
     \<lparr>blobs = [''t/hello.txt'' \<mapsto> [72, 105]], faults = [Some (HttpResponseError ''503'')]\<rparr>"

subsection \<open>Upload and download\<close>

text \<open>
  C1. For every byte sequence \<open>B\<close> and every key \<open>K\<close>, \<open>upload(K, B)\<close> followed by
  \<open>download(K)\<close> on the container state the upload left returns exactly \<open>B\<close>. In an
  environment that never fails both calls return, the upload with \<open>K\<close> and the download
  with \<open>B\<close>; in any environment, whenever both calls return, the download returns \<open>B\<close>.
\<close>

theorem upload_download_roundtrip:
  "(faults cs = [] \<longrightarrow>
      fst (upload self K B cs) = Inr K \<and>
      fst (download self K (snd (upload self K B cs))) = Inr B) \<and>
   (\<forall>k r. fst (upload self K B cs) = Inr k \<and>
          fst (download self K (snd (upload self K B cs))) = Inr r \<longrightarrow> r = B)"
  by (auto simp: upload_def download_def upload_blob_def download_blob_readall_def
        next_fault_def split: list.splits option.splits)

theorem upload_download_roundtrip_witness:
  "fst (upload example_storage ''t/new.bin'' [1, 2, 255] hello_container) = Inr ''t/new.bin'' \<and>
   fst (download example_storage ''t/new.bin''
          (snd (upload example_storage ''t/new.bin'' [1, 2, 255] hello_container)))
     = Inr [1, 2, 255]"
  using upload_download_roundtrip [of hello_container example_storage "''t/new.bin''" "[1, 2, 255]"]
  by (simp add: hello_container_def)

text \<open>
  C7. Upload overwrites unconditionally: after \<open>upload(K, B1)\<close> and then
  \<open>upload(K, B2)\<close>, \<open>download(K)\<close> returns \<open>B2\<close>, whatever the container held under
  \<open>K\<close> before, and each upload returns the key it was given. In an environment that never
  fails the three calls return; in any environment, whenever they return, they return
  these values.
\<close>

theorem upload_last_write_wins:
  "(let cs1 = snd (upload self K B1 cs); cs2 = snd (upload self K B2 cs1) in
     (faults cs = [] \<longrightarrow>
        fst (upload self K B1 cs) = Inr K \<and> fst (upload self K B2 cs1) = Inr K \<and>
        fst (download self K cs2) = Inr B2) \<and>
     (\<forall>k. fst (upload self K B1 cs) = Inr k \<longrightarrow> k = K) \<and>
     (\<forall>k r. fst (upload self K B2 cs1) = Inr k \<and> fst (download self K cs2) = Inr r
        \<longrightarrow> k = K \<and> r = B2))"
  by (auto simp: Let_def upload_def download_def upload_blob_def download_blob_readall_def
        next_fault_def split: list.splits option.splits)

theorem upload_last_write_wins_witness:
  "fst (upload example_storage ''t/hello.txt'' [7] hello_container) = Inr ''t/hello.txt'' \<and>
   fst (upload example_storage ''t/hello.txt'' [8, 9]
          (snd (upload example_storage ''t/hello.txt'' [7] hello_container)))
     = Inr ''t/hello.txt'' \<and>
   fst (download example_storage ''t/hello.txt''
          (snd (upload example_storage ''t/hello.txt'' [8, 9]
                  (snd (upload example_storage ''t/hello.txt'' [7] hello_container)))))
     = Inr [8, 9]"
  using upload_last_write_wins [of example_storage "''t/hello.txt''" "[7]" hello_container "[8, 9]"]
  by (simp add: Let_def hello_container_def)

subsection \<open>Delete and exists\<close>

text \<open>
  C3. \<open>delete(K)\<close> never propagates an exception: it returns \<open>True\<close> exactly when the
  backend deletion succeeds and \<open>False\<close> exactly when the backend raises, whatever the
  exception. On an absent key it returns \<open>False\<close>. On a present key, in an environment
  that does not fail, it returns \<open>True\<close> and \<open>exists(K)\<close> is \<open>False\<close> afterwards; and
  whenever it returns \<open>True\<close> the key is absent afterwards.
\<close>

theorem delete_never_raises:
  "(\<exists>b. fst (delete self K cs) = Inr b) \<and>
   (fst (delete self K cs) = Inr True \<longleftrightarrow> (\<exists>u. fst (delete_blob K cs) = Inr u)) \<and>
   (fst (delete self K cs) = Inr False \<longleftrightarrow> (\<exists>e. fst (delete_blob K cs) = Inl e)) \<and>
   (blobs cs K = None \<longrightarrow> fst (delete self K cs) = Inr False) \<and>
   (blobs cs K \<noteq> None \<and> faults cs = [] \<longrightarrow>
      fst (delete self K cs) = Inr True \<and>
      fst (exists self K (snd (delete self K cs))) = Inr False) \<and>
   (fst (delete self K cs) = Inr True \<longrightarrow> blobs (snd (delete self K cs)) K = None)"
  by (auto simp: delete_def exists_def delete_blob_def blob_exists_def next_fault_def
        split: list.splits option.splits)

theorem delete_never_raises_witness:
  "fst (delete example_storage ''t/absent.txt'' hello_container) = Inr False \<and>
   fst (delete example_storage ''t/hello.txt'' hello_container) = Inr True \<and>
   fst (exists example_storage ''t/hello.txt''
          (snd (delete example_storage ''t/hello.txt'' hello_container))) = Inr False \<and>
   fst (delete example_storage ''t/hello.txt'' failing_container) = Inr False"
  using delete_never_raises [of example_storage "''t/absent.txt''" hello_container]
    delete_never_raises [of example_storage "''t/hello.txt''" hello_container]
    delete_never_raises [of example_storage "''t/hello.txt''" failing_container]
  by (simp add: hello_container_def failing_container_def delete_blob_def next_fault_def)

text \<open>
  C8. \<open>exists(K)\<close> is the backend's existence check and nothing else: an error the
  backend raises is the result of \<open>exists\<close>, unchanged (where \<open>delete\<close> returns
  \<open>False\<close>), and when the backend answers, \<open>exists(K)\<close> is \<open>True\<close> exactly when a blob
  is stored under \<open>K\<close>.
\<close>

theorem exists_propagates_errors:
  "exists self K cs = blob_exists K cs \<and>
   (\<forall>e. fst (blob_exists K cs) = Inl e \<longrightarrow> fst (exists self K cs) = Inl e) \<and>
   (\<forall>e fs. faults cs = Some e # fs \<longrightarrow>
      fst (exists self K cs) = Inl e \<and> fst (delete self K cs) = Inr False) \<and>
   (\<forall>b. fst (exists self K cs) = Inr b \<longrightarrow> (b \<longleftrightarrow> blobs cs K \<noteq> None)) \<and>
   (faults cs = [] \<longrightarrow> fst (exists self K cs) = Inr (blobs cs K \<noteq> None))"
  by (auto simp: exists_def delete_def delete_blob_def blob_exists_def next_fault_def
        split: list.splits option.splits)

theorem exists_propagates_errors_witness:
  "fst (exists example_storage ''t/hello.txt'' failing_container)
     = Inl (HttpResponseError ''503'') \<and>
   fst (delete example_storage ''t/hello.txt'' failing_container) = Inr False \<and>
   fst (exists example_storage ''t/hello.txt'' hello_container) = Inr True \<and>
   fst (exists example_storage ''t/absent.txt'' hello_container) = Inr False"
  using exists_propagates_errors [of example_storage "''t/hello.txt''" failing_container]
    exists_propagates_errors [of example_storage "''t/hello.txt''" hello_container]
    exists_propagates_errors [of example_storage "''t/absent.txt''" hello_container]
  by (simp add: hello_container_def failing_container_def blob_exists_def next_fault_def)

subsection \<open>URLs\<close>

text \<open>
  C2. For every key \<open>K\<close>, \<open>get_url(K)\<close> returns the SAS base URL with everything from
  the first \<open>?\<close> onward stripped, then \<open>/\<close>, then \<open>K\<close>, then \<open>?\<close>, then the SAS
  token. It never raises. The container state is no argument of \<open>get_url\<close>: the result
  cannot depend on whether \<open>K\<close> names a blob, and no backend request is made.
\<close>

theorem get_url_shape:
  "get_url self K expiry_hours =
     Inr (base_without_query (sas_url self) @ ''/'' @ K @ ''?'' @ sas_token self)"
  by (simp add: get_url_def index0_split)

text \<open>
  C6. For every key \<open>K\<close> and any two values of \<open>expiry_hours\<close>, \<open>get_url\<close> returns the
  same URL: the argument is accepted and has no effect.
\<close>

theorem get_url_ignores_expiry_hours:
  "get_url self K e1 = get_url self K e2"
  by (simp add: get_url_def)

text \<open>
  C10. The URL depends only on the fields \<open>sas_url\<close> and \<open>sas_token\<close> and on the key:
  two adapters constructed with the same SAS URL and SAS token and different container
  names return the same URL for every key and every \<open>expiry_hours\<close>.
\<close>

theorem get_url_ignores_container_name:
  "get_url (init url token name1) K expiry_hours = get_url (init url token name2) K expiry_hours"
  by (simp add: get_url_def index0_split init_def)

end
